theory Spec2Isabelle
  imports Complex_Main
begin

section \<open>Python values of the field layer\<close>

text \<open>
  The module \<^verbatim>\<open>redisco/models/attributes.py\<close> is Python 2. Its values are modelled by
  one datatype. Integers are unbounded (the \<^verbatim>\<open>int\<close>/\<^verbatim>\<open>long\<close> split is not modelled).
  A float is the exact rational it denotes, or one of the three special values; rounding
  to binary64 is not modelled. Date and time are read in UTC: a \<^verbatim>\<open>datetime\<close> is the epoch
  second that \<^verbatim>\<open>time.mktime(value.timetuple())\<close> gives for it together with its
  microsecond field, a \<^verbatim>\<open>date\<close> is its day number since 1970-01-01. A list is a
  reference into a store of list objects, so that two names of one list are visible.
\<close>

datatype pyerr =
    TypeError
  | ValueError
  | AttributeError
  | OverflowError
  | UnicodeEncodeError
  | FieldValidationError "(string \<times> string) list"

datatype pyfloat = Finite rat | PosInf | NegInf | NaN

record datetime =
  dt_epoch :: int
  dt_microsecond :: nat

datatype pyval =
    PNone
  | PBool bool
  | PInt int
  | PFloat pyfloat
  | PStr string
  | PDateTime datetime
  | PDate int
  | PList nat
  | PInst "string list" pyval
  | PUnicode "nat list"

text \<open>
  \<open>PInst cs i\<close> is a model object: \<open>cs\<close> names its class and the model classes that class
  derives from, \<open>i\<close> is what its \<^verbatim>\<open>id\<close> attribute holds. \<open>PUnicode u\<close> is a
  \<^verbatim>\<open>unicode\<close> string, given by its code points; \<open>PStr\<close> is a byte string (\<^verbatim>\<open>str\<close>).
\<close>

datatype pytype = TStr | TBool | TInt | TFloat | TDateTime | TDate | TList | TModel string

type_synonym heap = "pyval list list"

definition list_at :: "heap \<Rightarrow> nat \<Rightarrow> pyval list" where
  "list_at h a = (if a < length h then h ! a else [])"

definition new_list :: "heap \<Rightarrow> pyval list \<Rightarrow> nat \<times> heap" where
  "new_list h xs = (length h, h @ [xs])"

definition list_append :: "heap \<Rightarrow> nat \<Rightarrow> pyval \<Rightarrow> heap" where
  "list_append h a x = (if a < length h then h[a := h ! a @ [x]] else h)"

text \<open>
  \<^verbatim>\<open>isinstance(value, T)\<close>. In Python \<^verbatim>\<open>bool\<close> derives from \<^verbatim>\<open>int\<close> and \<^verbatim>\<open>datetime\<close>
  from \<^verbatim>\<open>date\<close>.
\<close>

fun isinstance :: "pyval \<Rightarrow> pytype \<Rightarrow> bool" where
  "isinstance (PStr s) TStr = True"
| "isinstance (PBool b) TBool = True"
| "isinstance (PBool b) TInt = True"
| "isinstance (PInt i) TInt = True"
| "isinstance (PFloat f) TFloat = True"
| "isinstance (PDateTime d) TDateTime = True"
| "isinstance (PDateTime d) TDate = True"
| "isinstance (PDate d) TDate = True"
| "isinstance (PList a) TList = True"
| "isinstance (PInst cs i) (TModel c) = (c \<in> set cs)"
| "isinstance v t = False"

text \<open>Truth value of an object, as \<^verbatim>\<open>if val:\<close> tests it.\<close>

fun truthy :: "heap \<Rightarrow> pyval \<Rightarrow> bool" where
  "truthy h PNone = False"
| "truthy h (PBool b) = b"
| "truthy h (PInt i) = (i \<noteq> 0)"
| "truthy h (PFloat f) = (f \<noteq> Finite 0)"
| "truthy h (PStr s) = (s \<noteq> [])"
| "truthy h (PDateTime d) = True"
| "truthy h (PDate d) = True"
| "truthy h (PList a) = (list_at h a \<noteq> [])"
| "truthy h (PInst cs i) = True"
| "truthy h (PUnicode u) = (u \<noteq> [])"

section \<open>Strings and numbers\<close>

definition is_space :: "char \<Rightarrow> bool" where
  "is_space c = (c \<in> set [CHR '' '', CHR 0x09, CHR 0x0A, CHR 0x0B, CHR 0x0C, CHR 0x0D])"

definition strip :: "string \<Rightarrow> string" where
  "strip s = rev (dropWhile is_space (rev (dropWhile is_space s)))"

definition is_digit :: "char \<Rightarrow> bool" where
  "is_digit c = (c \<in> set ''0123456789'')"

definition digit_char :: "nat \<Rightarrow> char" where
  "digit_char n = ''0123456789'' ! (n mod 10)"

definition digit_val :: "char \<Rightarrow> nat" where
  "digit_val c = of_char c - 48"

fun str_nat :: "nat \<Rightarrow> string" where
  "str_nat n = (if n < 10 then [digit_char n] else str_nat (n div 10) @ [digit_char n])"

declare str_nat.simps [simp del]

definition str_int :: "int \<Rightarrow> string" where
  "str_int i = (if i < 0 then CHR ''-'' # str_nat (nat (- i)) else str_nat (nat i))"

definition digits_val :: "string \<Rightarrow> nat" where
  "digits_val s = foldl (\<lambda>n c. 10 * n + digit_val c) 0 s"

fun split_sign :: "string \<Rightarrow> bool \<times> string" where
  "split_sign [] = (False, [])"
| "split_sign (c # cs) =
     (if c = CHR ''-'' then (True, cs) else if c = CHR ''+'' then (False, cs)
      else (False, c # cs))"

text \<open>\<^verbatim>\<open>int(s)\<close> on a string: blanks around, a sign, decimal digits.\<close>

definition int_of_str :: "string \<Rightarrow> int option" where
  "int_of_str s =
     (case split_sign (strip s) of (neg, ds) \<Rightarrow>
        if ds \<noteq> [] \<and> list_all is_digit ds
        then Some (if neg then - int (digits_val ds) else int (digits_val ds))
        else None)"

definition lower_char :: "char \<Rightarrow> char" where
  "lower_char c =
     (case map_of (zip ''ABCDEFGHIJKLMNOPQRSTUVWXYZ'' ''abcdefghijklmnopqrstuvwxyz'') c of
        None \<Rightarrow> c
      | Some d \<Rightarrow> d)"

definition lower :: "string \<Rightarrow> string" where
  "lower s = map lower_char s"

definition scale10 :: "rat \<Rightarrow> bool \<Rightarrow> nat \<Rightarrow> rat" where
  "scale10 m neg e = (if neg then m / 10 ^ e else m * 10 ^ e)"

text \<open>
  The decimal part of \<^verbatim>\<open>float(s)\<close>: digits with an optional point, at least one digit,
  and an optional exponent.
\<close>

definition decimal_of_str :: "string \<Rightarrow> rat option" where
  "decimal_of_str s =
     (let ip = takeWhile is_digit s; r1 = dropWhile is_digit s;
          fp = (case r1 of [] \<Rightarrow> [] | c # t \<Rightarrow> if c = CHR ''.'' then takeWhile is_digit t else []);
          r2 = (case r1 of [] \<Rightarrow> [] | c # t \<Rightarrow> if c = CHR ''.'' then dropWhile is_digit t else r1);
          m = rat_of_nat (digits_val (ip @ fp)) / 10 ^ length fp
      in if ip = [] \<and> fp = [] then None
         else case r2 of
           [] \<Rightarrow> Some m
         | c # t \<Rightarrow>
             if c = CHR ''e'' \<or> c = CHR ''E''
             then (case split_sign t of (neg, ds) \<Rightarrow>
                     if ds \<noteq> [] \<and> list_all is_digit ds
                     then Some (scale10 m neg (digits_val ds)) else None)
             else None)"

definition float_of_str :: "string \<Rightarrow> pyfloat option" where
  "float_of_str s =
     (case split_sign (strip s) of (neg, body) \<Rightarrow>
        if lower body = ''inf'' \<or> lower body = ''infinity''
        then Some (if neg then NegInf else PosInf)
        else if lower body = ''nan'' then Some NaN
        else (case decimal_of_str body of
                None \<Rightarrow> None
              | Some q \<Rightarrow> Some (Finite (if neg then - q else q))))"

text \<open>
  A \<^verbatim>\<open>unicode\<close> string becomes a byte string through the ASCII codec, which is the
  default encoding: a code point above 127 is a \<^verbatim>\<open>UnicodeEncodeError\<close>.
\<close>

definition is_ascii :: "nat list \<Rightarrow> bool" where
  "is_ascii u = list_all (\<lambda>c. c < 128) u"

definition encode_ascii :: "nat list \<Rightarrow> pyerr + string" where
  "encode_ascii u = (if is_ascii u then Inr (map char_of u) else Inl UnicodeEncodeError)"

text \<open>
  \<^verbatim>\<open>int(value)\<close> and \<^verbatim>\<open>float(value)\<close> on any object. A \<^verbatim>\<open>unicode\<close> string is read
  through its ASCII form. Both functions also accept digits and blanks beyond ASCII;
  those are not modelled: a code point above 127 is taken to fail with
  \<^verbatim>\<open>UnicodeEncodeError\<close>, as it does when it is neither a digit nor a blank.
\<close>

fun py_int :: "pyval \<Rightarrow> pyerr + int" where
  "py_int (PStr s) = (case int_of_str s of None \<Rightarrow> Inl ValueError | Some i \<Rightarrow> Inr i)"
| "py_int (PInt i) = Inr i"
| "py_int (PBool b) = Inr (if b then 1 else 0)"
| "py_int (PFloat (Finite q)) = Inr (if q < 0 then - \<lfloor>- q\<rfloor> else \<lfloor>q\<rfloor>)"
| "py_int (PFloat NaN) = Inl ValueError"
| "py_int (PFloat f) = Inl OverflowError"
| "py_int (PUnicode u) =
     (case encode_ascii u of
        Inl e \<Rightarrow> Inl e
      | Inr s \<Rightarrow> (case int_of_str s of None \<Rightarrow> Inl ValueError | Some i \<Rightarrow> Inr i))"
| "py_int v = Inl TypeError"

fun py_float :: "pyval \<Rightarrow> pyerr + pyfloat" where
  "py_float (PStr s) = (case float_of_str s of None \<Rightarrow> Inl ValueError | Some f \<Rightarrow> Inr f)"
| "py_float (PInt i) = Inr (Finite (of_int i))"
| "py_float (PBool b) = Inr (Finite (if b then 1 else 0))"
| "py_float (PFloat f) = Inr f"
| "py_float (PUnicode u) =
     (case encode_ascii u of
        Inl e \<Rightarrow> Inl e
      | Inr s \<Rightarrow> (case float_of_str s of None \<Rightarrow> Inl ValueError | Some f \<Rightarrow> Inr f))"
| "py_float v = Inl TypeError"

text \<open>
  \<^verbatim>\<open>str(value)\<close>, which can raise: a \<^verbatim>\<open>unicode\<close> string is encoded with the ASCII
  codec, and an exception of an object's own \<^verbatim>\<open>__str__\<close> passes through. The renderings
  of floats, dates, lists and model objects belong to the interpreter and to the model
  classes; they are taken as the parameter \<open>ext\<close>, which may fail as well.
\<close>

fun py_str :: "(heap \<Rightarrow> pyval \<Rightarrow> pyerr + string) \<Rightarrow> heap \<Rightarrow> pyval \<Rightarrow> pyerr + string" where
  "py_str ext h PNone = Inr ''None''"
| "py_str ext h (PBool b) = Inr (if b then ''True'' else ''False'')"
| "py_str ext h (PInt i) = Inr (str_int i)"
| "py_str ext h (PStr s) = Inr s"
| "py_str ext h (PUnicode u) = encode_ascii u"
| "py_str ext h v = ext h v"

section \<open>Time stamps\<close>

text \<open>
  \<^verbatim>\<open>datetime.fromtimestamp(x)\<close>: the time stamp is cut towards zero, the rest is rounded
  to microseconds (halves away from zero) and carried. Years outside 1..9999, and the
  special floats, are a \<^verbatim>\<open>ValueError\<close>.
\<close>

definition trunc0 :: "rat \<Rightarrow> int" where
  "trunc0 q = (if q < 0 then - \<lfloor>- q\<rfloor> else \<lfloor>q\<rfloor>)"

definition round_to_long :: "rat \<Rightarrow> int" where
  "round_to_long x = (if 0 \<le> x then \<lfloor>x + 1 / 2\<rfloor> else \<lceil>x - 1 / 2\<rceil>)"

definition epoch_in_range :: "int \<Rightarrow> bool" where
  "epoch_in_range t = (- 62135596800 \<le> t \<and> t \<le> 253402300799)"

definition datetime_fromtimestamp :: "pyfloat \<Rightarrow> pyerr + datetime" where
  "datetime_fromtimestamp f =
     (case f of
        Finite x \<Rightarrow>
          (let timet = trunc0 x;
               us = round_to_long ((x - of_int timet) * 1000000);
               timet1 = (if us < 0 then timet - 1 else timet);
               us1 = (if us < 0 then us + 1000000 else us);
               timet2 = (if us1 = 1000000 then timet1 + 1 else timet1);
               us2 = (if us1 = 1000000 then 0 else us1)
           in if epoch_in_range timet2
              then Inr \<lparr>dt_epoch = timet2, dt_microsecond = nat us2\<rparr>
              else Inl ValueError)
      | _ \<Rightarrow> Inl ValueError)"

definition date_fromtimestamp :: "pyfloat \<Rightarrow> pyerr + int" where
  "date_fromtimestamp f =
     (case f of
        Finite x \<Rightarrow>
          (let timet = trunc0 x
           in if epoch_in_range timet then Inr (timet div 86400) else Inl ValueError)
      | _ \<Rightarrow> Inl ValueError)"

section \<open>Scalar fields: the typecast pair\<close>

text \<open>\<^verbatim>\<open>Attribute\<close>: a string field.\<close>

definition Attribute_typecast_for_read :: "pyval \<Rightarrow> pyval" where
  "Attribute_typecast_for_read v = v"

definition Attribute_typecast_for_storage ::
    "(heap \<Rightarrow> pyval \<Rightarrow> pyerr + string) \<Rightarrow> heap \<Rightarrow> pyval \<Rightarrow> pyerr + string" where
  "Attribute_typecast_for_storage ext h v = py_str ext h v"

text \<open>\<^verbatim>\<open>BooleanField\<close>.\<close>

definition BooleanField_typecast_for_read :: "pyval \<Rightarrow> pyerr + pyval" where
  "BooleanField_typecast_for_read v =
     (case py_int v of Inl e \<Rightarrow> Inl e | Inr i \<Rightarrow> Inr (PBool (i \<noteq> 0)))"

definition BooleanField_typecast_for_storage :: "heap \<Rightarrow> pyval \<Rightarrow> string" where
  "BooleanField_typecast_for_storage h v =
     (if v = PNone then ''0'' else if truthy h v then ''1'' else ''0'')"

text \<open>\<^verbatim>\<open>IntegerField\<close>.\<close>

definition IntegerField_typecast_for_read :: "pyval \<Rightarrow> pyerr + pyval" where
  "IntegerField_typecast_for_read v =
     (case py_int v of Inl e \<Rightarrow> Inl e | Inr i \<Rightarrow> Inr (PInt i))"

definition IntegerField_typecast_for_storage ::
    "(heap \<Rightarrow> pyval \<Rightarrow> pyerr + string) \<Rightarrow> heap \<Rightarrow> pyval \<Rightarrow> pyerr + string" where
  "IntegerField_typecast_for_storage ext h v =
     (if v = PNone then Inr ''0'' else py_str ext h v)"

text \<open>\<^verbatim>\<open>FloatField\<close>.\<close>

definition FloatField_typecast_for_read :: "pyval \<Rightarrow> pyerr + pyval" where
  "FloatField_typecast_for_read v =
     (case py_float v of Inl e \<Rightarrow> Inl e | Inr f \<Rightarrow> Inr (PFloat f))"

definition FloatField_typecast_for_storage ::
    "(heap \<Rightarrow> pyval \<Rightarrow> pyerr + string) \<Rightarrow> heap \<Rightarrow> pyval \<Rightarrow> pyerr + string" where
  "FloatField_typecast_for_storage ext h v =
     (if v = PNone then Inr ''0'' else py_str ext h v)"

text \<open>
  \<^verbatim>\<open>DateTimeField\<close>. In Python 2 the clause \<^verbatim>\<open>except TypeError, ValueError:\<close> catches
  \<^verbatim>\<open>TypeError\<close> only and binds the caught exception to the name \<^verbatim>\<open>ValueError\<close>; every other
  exception leaves the function.
\<close>

definition DateTimeField_typecast_for_read :: "pyval \<Rightarrow> pyerr + pyval" where
  "DateTimeField_typecast_for_read v =
     (case (case py_float v of Inl e \<Rightarrow> Inl e | Inr f \<Rightarrow> datetime_fromtimestamp f) of
        Inl e \<Rightarrow> if e = TypeError then Inr PNone else Inl e
      | Inr d \<Rightarrow> Inr (PDateTime d))"

text \<open>
  \<^verbatim>\<open>"%d.%d" % (time.mktime(value.timetuple()), value.microsecond)\<close>: both numbers are
  written in decimal without padding. The result is the string, or \<^verbatim>\<open>None\<close>.
\<close>

definition DateTimeField_typecast_for_storage :: "pyval \<Rightarrow> pyerr + string option" where
  "DateTimeField_typecast_for_storage v =
     (if \<not> isinstance v TDateTime then Inl TypeError
      else if v = PNone then Inr None
      else case v of
             PDateTime d \<Rightarrow>
               Inr (Some (str_int (dt_epoch d) @ ''.'' @ str_int (int (dt_microsecond d))))
           | _ \<Rightarrow> Inl TypeError)"

text \<open>\<^verbatim>\<open>DateField\<close>. \<^verbatim>\<open>"%f"\<close> writes six decimals; the time stamp of a day is whole.\<close>

definition DateField_typecast_for_read :: "pyval \<Rightarrow> pyerr + pyval" where
  "DateField_typecast_for_read v =
     (case (case py_float v of Inl e \<Rightarrow> Inl e | Inr f \<Rightarrow> date_fromtimestamp f) of
        Inl e \<Rightarrow> if e = TypeError then Inr PNone else Inl e
      | Inr d \<Rightarrow> Inr (PDate d))"

definition mktime_of :: "pyval \<Rightarrow> int" where
  "mktime_of v = (case v of PDateTime d \<Rightarrow> dt_epoch d | PDate n \<Rightarrow> n * 86400 | _ \<Rightarrow> 0)"

definition DateField_typecast_for_storage :: "pyval \<Rightarrow> pyerr + string option" where
  "DateField_typecast_for_storage v =
     (if \<not> isinstance v TDate then Inl TypeError
      else if v = PNone then Inr None
      else Inr (Some (str_int (mktime_of v) @ ''.000000'')))"

section \<open>Descriptors, instances and the store\<close>

text \<open>
  What the module takes from its collaborators: \<^verbatim>\<open>instance.db.hget(instance.key(), name)\<close>,
  the members of the list stored under \<^verbatim>\<open>instance.key()[name]\<close>, the lookup
  \<^verbatim>\<open>klass.objects.get_by_id(v)\<close> of the model class of a given name (\<open>PNone\<close> when
  nothing is found), \<^verbatim>\<open>get_model_from_key\<close>, and the renderings behind \<^verbatim>\<open>str\<close>.
\<close>

record store =
  hget :: "string \<Rightarrow> string \<Rightarrow> string option"
  members :: "string \<Rightarrow> string \<Rightarrow> string list"
  get_by_id :: "string \<Rightarrow> pyval \<Rightarrow> pyval"
  get_model_from_key :: "string \<Rightarrow> string option"
  str_ext :: "heap \<Rightarrow> pyval \<Rightarrow> pyerr + string"

text \<open>
  A model instance, as far as the fields see it: its attribute dictionary (the caches
  \<^verbatim>\<open>'_' + name\<close> and the identifier slots), \<^verbatim>\<open>is_new()\<close> and \<^verbatim>\<open>key()\<close>.
\<close>

record model_instance =
  attrs :: "string \<Rightarrow> pyval option"
  is_new :: bool
  key :: string

text \<open>
  The attributes every descriptor class sets in its constructor. A validator returns
  the list of its error pairs; the empty list stands for every false result.
\<close>

record descriptor =
  name :: string
  indexed :: bool
  required :: bool
  validator :: "(heap \<Rightarrow> pyval \<Rightarrow> (string \<times> string) list) option"
  default :: pyval

datatype scalar_class =
  Attribute | BooleanField | IntegerField | FloatField | DateTimeField | DateField

record attribute = descriptor +
  cls :: scalar_class

text \<open>A target type is given by the name of a model class or as a type.\<close>

datatype target = ByName string | ByType pytype

record listfield = descriptor +
  target_type :: target
  redisco_model :: bool

text \<open>
  \<open>resolved\<close> is the attribute \<^verbatim>\<open>'_' + name\<close> of the descriptor object itself (absent
  at first). The field's name is taken to differ from \<^verbatim>\<open>target_type\<close>, \<^verbatim>\<open>attname\<close> and
  \<^verbatim>\<open>related_name\<close>, whose underscored forms the constructor sets.
\<close>

record referencefield = descriptor +
  ref_target_type :: target
  ref_attname :: "string option"
  ref_related_name :: "string option"
  resolved :: "pyval option"

definition cache_slot :: "string \<Rightarrow> string" where
  "cache_slot n = CHR ''_'' # n"

definition set_attr :: "model_instance \<Rightarrow> string \<Rightarrow> pyval \<Rightarrow> model_instance" where
  "set_attr inst a v = inst\<lparr>attrs := (attrs inst)(a := Some v)\<rparr>"

section \<open>Attribute and its subclasses\<close>

fun typecast_for_read :: "scalar_class \<Rightarrow> pyval \<Rightarrow> pyerr + pyval" where
  "typecast_for_read Attribute v = Inr (Attribute_typecast_for_read v)"
| "typecast_for_read BooleanField v = BooleanField_typecast_for_read v"
| "typecast_for_read IntegerField v = IntegerField_typecast_for_read v"
| "typecast_for_read FloatField v = FloatField_typecast_for_read v"
| "typecast_for_read DateTimeField v = DateTimeField_typecast_for_read v"
| "typecast_for_read DateField v = DateField_typecast_for_read v"

fun value_type :: "scalar_class \<Rightarrow> pytype" where
  "value_type Attribute = TStr"
| "value_type BooleanField = TBool"
| "value_type IntegerField = TInt"
| "value_type FloatField = TFloat"
| "value_type DateTimeField = TDateTime"
| "value_type DateField = TDate"

definition Attribute_set :: "('a attribute_scheme) \<Rightarrow> model_instance \<Rightarrow> pyval \<Rightarrow> model_instance" where
  "Attribute_set f inst v = set_attr inst (cache_slot (name f)) v"

definition Attribute_get ::
    "store \<Rightarrow> attribute \<Rightarrow> model_instance \<Rightarrow> pyerr + pyval \<times> model_instance" where
  "Attribute_get st f inst =
     (case attrs inst (cache_slot (name f)) of
        Some v \<Rightarrow> Inr (v, inst)
      | None \<Rightarrow>
          if \<not> is_new inst then
            (case hget st (key inst) (name f) of
               None \<Rightarrow> Inr (PNone, Attribute_set f inst PNone)
             | Some raw \<Rightarrow>
                 (case typecast_for_read (cls f) (PStr raw) of
                    Inl e \<Rightarrow> Inl e
                  | Inr val \<Rightarrow> Inr (val, Attribute_set f inst val)))
          else Inr (default f, Attribute_set f inst (default f)))"

text \<open>The three stages of \<^verbatim>\<open>validate\<close> that fill \<^verbatim>\<open>errors\<close>, in the order of the source.\<close>

definition run_validator ::
    "('a descriptor_scheme) \<Rightarrow> heap \<Rightarrow> pyval \<Rightarrow> (string \<times> string) list \<Rightarrow> (string \<times> string) list" where
  "run_validator f h val errors =
     (case validator f of
        None \<Rightarrow> errors
      | Some g \<Rightarrow> (let r = g h val in if r \<noteq> [] then errors @ r else errors))"

definition raise_errors :: "(string \<times> string) list \<Rightarrow> 'a \<Rightarrow> pyerr + 'a" where
  "raise_errors errors x = (if errors \<noteq> [] then Inl (FieldValidationError errors) else Inr x)"

text \<open>
  The test \<^verbatim>\<open>val is None or not str(val).strip()\<close>; \<^verbatim>\<open>str\<close> is not called on
  \<^verbatim>\<open>None\<close>, and what it raises leaves \<^verbatim>\<open>validate\<close> at once.
\<close>

definition is_blank :: "store \<Rightarrow> heap \<Rightarrow> pyval \<Rightarrow> pyerr + bool" where
  "is_blank st h val =
     (if val = PNone then Inr True
      else case py_str (str_ext st) h val of
             Inl e \<Rightarrow> Inl e
           | Inr s \<Rightarrow> Inr (strip s = []))"

definition Attribute_validate ::
    "store \<Rightarrow> heap \<Rightarrow> attribute \<Rightarrow> model_instance \<Rightarrow> pyerr + model_instance" where
  "Attribute_validate st h f inst =
     (case Attribute_get st f inst of
        Inl e \<Rightarrow> Inl e
      | Inr (val, inst1) \<Rightarrow>
          (let errors0 = [];
               errors1 = (if truthy h val \<and> \<not> isinstance val (value_type (cls f))
                          then errors0 @ [(name f, ''bad type'')] else errors0)
           in case (if required f then is_blank st h val else Inr False) of
                Inl e \<Rightarrow> Inl e
              | Inr blank \<Rightarrow>
                  (let errors2 = (if blank then errors1 @ [(name f, ''required'')]
                                  else errors1);
                       errors3 = run_validator f h val errors2
                   in raise_errors errors3 inst1)))"

section \<open>ListField\<close>

text \<open>
  Iterating over an object: a list gives its elements, a string of either kind its
  characters.
\<close>

fun py_iter :: "heap \<Rightarrow> pyval \<Rightarrow> pyerr + pyval list" where
  "py_iter h (PList a) = Inr (list_at h a)"
| "py_iter h (PStr s) = Inr (map (\<lambda>c. PStr [c]) s)"
| "py_iter h (PUnicode u) = Inr (map (\<lambda>c. PUnicode [c]) u)"
| "py_iter h v = Inl TypeError"

text \<open>
  \<^verbatim>\<open>klass(v)\<close> for a type that is not a model class. A call of \<^verbatim>\<open>datetime\<close> or \<^verbatim>\<open>date\<close>
  with one argument is a \<^verbatim>\<open>TypeError\<close> (their pickle form is not modelled). A descriptor
  built by the constructor never takes this path with a model class.
\<close>

fun construct ::
    "(heap \<Rightarrow> pyval \<Rightarrow> pyerr + string) \<Rightarrow> heap \<Rightarrow> pytype \<Rightarrow> pyval
       \<Rightarrow> pyerr + pyval \<times> heap" where
  "construct ext h TStr v =
     (case py_str ext h v of Inl e \<Rightarrow> Inl e | Inr s \<Rightarrow> Inr (PStr s, h))"
| "construct ext h TBool v = Inr (PBool (truthy h v), h)"
| "construct ext h TInt v = (case py_int v of Inl e \<Rightarrow> Inl e | Inr i \<Rightarrow> Inr (PInt i, h))"
| "construct ext h TFloat v = (case py_float v of Inl e \<Rightarrow> Inl e | Inr x \<Rightarrow> Inr (PFloat x, h))"
| "construct ext h TList v =
     (case py_iter h v of
        Inl e \<Rightarrow> Inl e
      | Inr xs \<Rightarrow> (case new_list h xs of (a, h1) \<Rightarrow> Inr (PList a, h1)))"
| "construct ext h t v = Inl TypeError"

text \<open>\<^verbatim>\<open>[klass(v) for v in val]\<close>.\<close>

fun construct_all ::
    "(heap \<Rightarrow> pyval \<Rightarrow> pyerr + string) \<Rightarrow> heap \<Rightarrow> pytype \<Rightarrow> pyval list
       \<Rightarrow> pyerr + pyval list \<times> heap" where
  "construct_all ext h t [] = Inr ([], h)"
| "construct_all ext h t (v # vs) =
     (case construct ext h t v of
        Inl e \<Rightarrow> Inl e
      | Inr (x, h1) \<Rightarrow>
          (case construct_all ext h1 t vs of
             Inl e \<Rightarrow> Inl e
           | Inr (xs, h2) \<Rightarrow> Inr (x # xs, h2)))"

text \<open>
  \<^verbatim>\<open>[klass.objects.get_by_id(v) for v in val]\<close>: only a model class has \<^verbatim>\<open>objects\<close>, and
  the attribute is read once per element.
\<close>

definition resolve_all :: "store \<Rightarrow> pytype \<Rightarrow> pyval list \<Rightarrow> pyerr + pyval list" where
  "resolve_all st klass vals =
     (case klass of
        TModel c \<Rightarrow> Inr (map (get_by_id st c) vals)
      | _ \<Rightarrow> if vals = [] then Inr [] else Inl AttributeError)"

text \<open>
  The constructor: \<^verbatim>\<open>default or []\<close> makes a new empty list when the default given is
  false; \<^verbatim>\<open>_redisco_model\<close> is set for a name and for a model class.
\<close>

definition ListField_init ::
    "heap \<Rightarrow> target \<Rightarrow> string \<Rightarrow> bool \<Rightarrow> bool
       \<Rightarrow> (heap \<Rightarrow> pyval \<Rightarrow> (string \<times> string) list) option \<Rightarrow> pyval \<Rightarrow> listfield \<times> heap" where
  "ListField_init h tt nm idx req vld dflt =
     (case (if truthy h dflt then (dflt, h)
            else (case new_list h [] of (a, h1) \<Rightarrow> (PList a, h1))) of
        (d, h2) \<Rightarrow>
          (\<lparr>name = nm, indexed = idx, required = req, validator = vld, default = d,
            target_type = tt,
            redisco_model = (case tt of
                               ByName n \<Rightarrow> True
                             | ByType t \<Rightarrow> (case t of TModel c \<Rightarrow> True | _ \<Rightarrow> False))\<rparr>, h2))"

text \<open>
  \<^verbatim>\<open>value_type\<close> resolves a name once and keeps the class. When the name is unknown the
  source leaves \<^verbatim>\<open>None\<close> in \<^verbatim>\<open>_target_type\<close> and raises; the model returns the error and
  does not follow that descriptor further.
\<close>

definition ListField_value_type :: "store \<Rightarrow> listfield \<Rightarrow> pyerr + pytype \<times> listfield" where
  "ListField_value_type st f =
     (case target_type f of
        ByName t \<Rightarrow>
          (case get_model_from_key st t of
             None \<Rightarrow> Inl ValueError
           | Some c \<Rightarrow> Inr (TModel c, f\<lparr>target_type := ByType (TModel c)\<rparr>))
      | ByType ty \<Rightarrow> Inr (ty, f))"

definition ListField_set :: "listfield \<Rightarrow> model_instance \<Rightarrow> pyval \<Rightarrow> model_instance" where
  "ListField_set f inst v = set_attr inst (cache_slot (name f)) v"

text \<open>
  The conversion of \<^verbatim>\<open>__get__\<close>, applied to the default of a new instance and to the
  stored members alike: the elements are looked up (and the unresolved ones filtered
  out) for a model target, and passed through the target type otherwise. Either way
  the result is a list object of its own.
\<close>

definition converted ::
    "store \<Rightarrow> heap \<Rightarrow> bool \<Rightarrow> pytype \<Rightarrow> pyval list \<Rightarrow> pyerr + pyval list \<times> heap" where
  "converted st h is_model klass vals =
     (if is_model then
        (case resolve_all st klass vals of
           Inl e \<Rightarrow> Inl e
         | Inr objs \<Rightarrow> Inr (filter (\<lambda>obj. obj \<noteq> PNone) objs, h))
      else construct_all (str_ext st) h klass vals)"

definition convert_members ::
    "store \<Rightarrow> heap \<Rightarrow> listfield \<Rightarrow> pyval \<Rightarrow> pyerr + pyval \<times> listfield \<times> heap" where
  "convert_members st h f val =
     (if val \<noteq> PNone then
        (case ListField_value_type st f of
           Inl e \<Rightarrow> Inl e
         | Inr (klass, f1) \<Rightarrow>
             (case py_iter h val of
                Inl e \<Rightarrow> Inl e
              | Inr vals \<Rightarrow>
                  (case converted st h (redisco_model f1) klass vals of
                     Inl e \<Rightarrow> Inl e
                   | Inr (xs, h1) \<Rightarrow>
                       (case new_list h1 xs of (a, h2) \<Rightarrow> Inr (PList a, f1, h2)))))
      else Inr (val, f, h))"

definition ListField_get ::
    "store \<Rightarrow> heap \<Rightarrow> listfield \<Rightarrow> model_instance
       \<Rightarrow> pyerr + pyval \<times> listfield \<times> model_instance \<times> heap" where
  "ListField_get st h f inst =
     (case attrs inst (cache_slot (name f)) of
        Some v \<Rightarrow> Inr (v, f, inst, h)
      | None \<Rightarrow>
          (case (if is_new inst then (default f, h)
                 else (case new_list h (map PStr (members st (key inst) (name f))) of
                         (a, h0) \<Rightarrow> (PList a, h0))) of
             (val, h1) \<Rightarrow>
               (case convert_members st h1 f val of
                  Inl e \<Rightarrow> Inl e
                | Inr (val1, f1, h2) \<Rightarrow> Inr (val1, f1, ListField_set f1 inst val1, h2))))"



section \<open>ReferenceField\<close>

definition ReferenceField_value_type :: "referencefield \<Rightarrow> target" where
  "ReferenceField_value_type f = ref_target_type f"

text \<open>The property \<^verbatim>\<open>attname\<close> fills \<^verbatim>\<open>_attname\<close> on first use.\<close>

definition ReferenceField_attname :: "referencefield \<Rightarrow> string \<times> referencefield" where
  "ReferenceField_attname f =
     (case ref_attname f of
        None \<Rightarrow> (name f @ ''_id'', f\<lparr>ref_attname := Some (name f @ ''_id'')\<rparr>)
      | Some a \<Rightarrow> (a, f))"

text \<open>\<^verbatim>\<open>isinstance\<close> itself raises \<^verbatim>\<open>TypeError\<close> when its second argument is a string.\<close>

definition isinstance_of :: "pyval \<Rightarrow> target \<Rightarrow> pyerr + bool" where
  "isinstance_of v tt = (case tt of ByName n \<Rightarrow> Inl TypeError | ByType t \<Rightarrow> Inr (isinstance v t))"

text \<open>\<^verbatim>\<open>value.id\<close>: only a model object has the attribute.\<close>

definition py_id :: "pyval \<Rightarrow> pyerr + pyval" where
  "py_id v = (case v of PInst cs i \<Rightarrow> Inr i | _ \<Rightarrow> Inl AttributeError)"

definition ReferenceField_set ::
    "referencefield \<Rightarrow> model_instance \<Rightarrow> pyval \<Rightarrow> pyerr + referencefield \<times> model_instance" where
  "ReferenceField_set f inst v =
     (case isinstance_of v (ReferenceField_value_type f) of
        Inl e \<Rightarrow> Inl e
      | Inr b \<Rightarrow>
          if \<not> b \<and> v \<noteq> PNone then Inl TypeError
          else (case ReferenceField_attname f of
                  (a, f1) \<Rightarrow>
                    (case py_id v of
                       Inl e \<Rightarrow> Inl e
                     | Inr i \<Rightarrow> Inr (f1, set_attr inst a i))))"

text \<open>
  \<^verbatim>\<open>__get__\<close>: every \<^verbatim>\<open>AttributeError\<close> of the lookup (a target without \<^verbatim>\<open>objects\<close>, an
  instance without the identifier slot) ends in the default, which is cached as well.
\<close>

definition ReferenceField_get ::
    "store \<Rightarrow> referencefield \<Rightarrow> model_instance \<Rightarrow> pyval \<times> referencefield" where
  "ReferenceField_get st f inst =
     (case resolved f of
        Some v \<Rightarrow> (v, f)
      | None \<Rightarrow>
          (case ReferenceField_value_type f of
             ByType (TModel c) \<Rightarrow>
               (case ReferenceField_attname f of
                  (a, f1) \<Rightarrow>
                    (case attrs inst a of
                       Some i \<Rightarrow> (get_by_id st c i, f1\<lparr>resolved := Some (get_by_id st c i)\<rparr>)
                     | None \<Rightarrow> (default f1, f1\<lparr>resolved := Some (default f1)\<rparr>)))
           | _ \<Rightarrow> (default f, f\<lparr>resolved := Some (default f)\<rparr>)))"


section \<open>Example values\<close>

text \<open>
  A store in which the backing list of every field is \<open>1, 2, 3\<close>, the identifier \<open>2\<close>
  resolves to nothing and every other identifier to an object of the class asked for.
\<close>

definition ex_store :: store where
  "ex_store =
     \<lparr>hget = (\<lambda>k n. None),
      members = (\<lambda>k n. [''1'', ''2'', ''3'']),
      get_by_id = (\<lambda>c i. if i = PStr ''2'' then PNone else PInst [c] i),
      get_model_from_key = (\<lambda>n. if n = ''Person'' then Some ''Person'' else None),
      str_ext = (\<lambda>h v. Inr ''?'')\<rparr>"

definition ex_author :: referencefield where
  "ex_author =
     \<lparr>name = ''author'', indexed = True, required = False, validator = None, default = PNone,
      ref_target_type = ByType (TModel ''Person''), ref_attname = None,
      ref_related_name = None, resolved = None\<rparr>"

definition ex_book :: "string \<Rightarrow> model_instance" where
  "ex_book i = \<lparr>attrs = (\<lambda>a. if a = ''author_id'' then Some (PStr i) else None),
               is_new = False, key = ''Book:'' @ i\<rparr>"

definition ex_title :: attribute where
  "ex_title =
     \<lparr>name = ''title'', indexed = True, required = True, validator = None, default = PNone,
      cls = Attribute\<rparr>"

definition ex_titled :: "pyval \<Rightarrow> model_instance" where
  "ex_titled v = \<lparr>attrs = (\<lambda>a. if a = ''_title'' then Some v else None),
                 is_new = False, key = ''Book:1''\<rparr>"

definition ex_person :: model_instance where
  "ex_person = \<lparr>attrs = (\<lambda>a. None), is_new = False, key = ''Person:7''\<rparr>"

definition ex_friends :: listfield where
  "ex_friends =
     \<lparr>name = ''friends'', indexed = True, required = False, validator = None,
      default = PList 0, target_type = ByName ''Person'', redisco_model = True\<rparr>"

definition ex_numbers :: listfield where
  "ex_numbers =
     \<lparr>name = ''numbers'', indexed = True, required = False, validator = None,
      default = PList 0, target_type = ByType TInt, redisco_model = False\<rparr>"

definition ex_new :: model_instance where
  "ex_new = \<lparr>attrs = (\<lambda>a. None), is_new = True, key = ''Book''\<rparr>"



section \<open>What validation is to report\<close>






section \<open>Evaluation rules\<close>

lemma floor_rat_numeral: "\<lfloor>(numeral a :: rat) / numeral b\<rfloor> = numeral a div numeral b"
  using floor_divide_of_int_eq [of "numeral a" "numeral b", where ?'a = rat] by simp

lemmas parse_defs = float_of_str_def strip_def is_space_def lower_def lower_char_def
  decimal_of_str_def is_digit_def digits_val_def digit_val_def scale10_def

lemmas stamp_defs = datetime_fromtimestamp_def date_fromtimestamp_def trunc0_def
  round_to_long_def epoch_in_range_def floor_rat_numeral

lemmas show_defs = str_int_def str_nat.simps digit_char_def

lemmas int_defs = int_of_str_def strip_def is_space_def is_digit_def digits_val_def digit_val_def

section \<open>Round trips that hold\<close>

text \<open>
  The boolean and the integer field read back what they stored, and so does the date
  field for every day whose time stamp \<^verbatim>\<open>date.fromtimestamp\<close> accepts. The proofs
  follow the decimal rendering digit by digit.
\<close>

lemma digit_char_is_digit: "is_digit (digit_char n)"
  unfolding is_digit_def digit_char_def by (rule nth_mem) simp

lemma below_ten:
  "(k::nat) < 10 \<Longrightarrow> k = 0 \<or> k = 1 \<or> k = 2 \<or> k = 3 \<or> k = 4 \<or> k = 5 \<or> k = 6 \<or> k = 7
     \<or> k = 8 \<or> k = 9"
  by arith

lemma digit_val_digit_char: "digit_val (digit_char n) = n mod 10"
proof -
  have "n mod 10 < 10" by simp
  from below_ten [OF this] show ?thesis
    by (elim disjE) (simp_all add: digit_char_def digit_val_def)
qed

lemma is_digit_plain: "is_digit c \<Longrightarrow> \<not> is_space c \<and> c \<noteq> CHR ''-'' \<and> c \<noteq> CHR ''+''"
  by (auto simp: is_digit_def is_space_def)

lemma str_nat_digits: "str_nat n \<noteq> [] \<and> list_all is_digit (str_nat n)"
proof (induction n rule: str_nat.induct)
  case (1 n)
  show ?case
  proof (cases "n < 10")
    case True
    then show ?thesis by (simp add: str_nat.simps [of n] digit_char_is_digit)
  next
    case False
    with 1 show ?thesis by (simp add: str_nat.simps [of n] digit_char_is_digit)
  qed
qed

lemma digits_val_snoc: "digits_val (s @ [c]) = 10 * digits_val s + digit_val c"
  by (simp add: digits_val_def)

lemma digits_val_str_nat: "digits_val (str_nat n) = n"
proof (induction n rule: str_nat.induct)
  case (1 n)
  show ?case
  proof (cases "n < 10")
    case True
    then show ?thesis
      by (simp add: str_nat.simps [of n] digits_val_def digit_val_digit_char)
  next
    case False
    with 1 have "digits_val (str_nat (n div 10)) = n div 10" by simp
    with False show ?thesis
      by (simp add: str_nat.simps [of n] digits_val_snoc digit_val_digit_char)
  qed
qed

lemma strip_plain:
  assumes "s \<noteq> []" and "\<not> is_space (hd s)" and "\<not> is_space (last s)"
  shows "strip s = s"
proof -
  from assms have a: "dropWhile is_space s = s"
    by (cases s) simp_all
  from assms have "rev s \<noteq> []" and "\<not> is_space (hd (rev s))"
    by (simp_all add: hd_rev)
  then have "dropWhile is_space (rev s) = rev s"
    by (cases "rev s") simp_all
  with a show ?thesis by (simp add: strip_def)
qed

lemma str_nat_ends: "is_digit (hd (str_nat n)) \<and> is_digit (last (str_nat n))"
  using str_nat_digits [of n]
  by (cases "str_nat n") (auto simp: list_all_iff)

lemma int_of_str_str_int: "int_of_str (str_int i) = Some i"
proof (cases "i < 0")
  case True
  let ?s = "CHR ''-'' # str_nat (nat (- i))"
  have "strip ?s = ?s"
    using str_nat_digits [of "nat (- i)"] str_nat_ends [of "nat (- i)"]
    by (intro strip_plain) (auto simp: is_space_def dest: is_digit_plain)
  with True show ?thesis
    using str_nat_digits [of "nat (- i)"]
    by (simp add: int_of_str_def str_int_def digits_val_str_nat)
next
  case False
  let ?s = "str_nat (nat i)"
  have s: "strip ?s = ?s"
    using str_nat_digits [of "nat i"] str_nat_ends [of "nat i"]
    by (intro strip_plain) (auto dest: is_digit_plain)
  have "split_sign ?s = (False, ?s)"
    using str_nat_digits [of "nat i"] str_nat_ends [of "nat i"]
    by (cases ?s) (auto dest: is_digit_plain)
  with s False show ?thesis
    using str_nat_digits [of "nat i"]
    by (simp add: int_of_str_def str_int_def digits_val_str_nat)
qed

lemma IntegerField_roundtrip:
  "IntegerField_typecast_for_storage ext h (PInt i) = Inr (str_int i)
   \<and> IntegerField_typecast_for_read (PStr (str_int i)) = Inr (PInt i)"
  by (simp add: IntegerField_typecast_for_read_def IntegerField_typecast_for_storage_def
      int_of_str_str_int)

lemma BooleanField_roundtrip:
  "BooleanField_typecast_for_read (PStr (BooleanField_typecast_for_storage h (PBool b)))
   = Inr (PBool b)"
  by (cases b)
     (simp_all add: BooleanField_typecast_for_read_def BooleanField_typecast_for_storage_def
      int_defs)


lemma digits_val_append:
  "digits_val (xs @ ys) = digits_val xs * 10 ^ length ys + digits_val ys"
proof (induction ys rule: rev_induct)
  case Nil
  then show ?case by (simp add: digits_val_def)
next
  case (snoc y ys)
  have "digits_val (xs @ ys @ [y]) = 10 * digits_val (xs @ ys) + digit_val y"
    using digits_val_snoc [of "xs @ ys" y] by simp
  with snoc show ?case
    by (simp add: digits_val_snoc algebra_simps)
qed

lemma digit_cases:
  "is_digit c \<Longrightarrow> c = CHR ''0'' \<or> c = CHR ''1'' \<or> c = CHR ''2'' \<or> c = CHR ''3'' \<or> c = CHR ''4''
     \<or> c = CHR ''5'' \<or> c = CHR ''6'' \<or> c = CHR ''7'' \<or> c = CHR ''8'' \<or> c = CHR ''9''"
  by (simp add: is_digit_def)

lemma lower_char_digit: "is_digit c \<Longrightarrow> lower_char c = c"
  by (drule digit_cases, elim disjE) (simp_all add: lower_char_def)

lemma not_a_word:
  assumes "body \<noteq> []" and "is_digit (hd body)"
  shows "lower body \<noteq> ''inf'' \<and> lower body \<noteq> ''infinity'' \<and> lower body \<noteq> ''nan''"
proof (cases body)
  case Nil
  with assms show ?thesis by simp
next
  case (Cons c cs)
  with assms have "is_digit c" by simp
  then have "lower_char c = c"
    by (rule lower_char_digit)
  moreover from \<open>is_digit c\<close> have "c \<noteq> CHR ''i'' \<and> c \<noteq> CHR ''n''"
    by (drule_tac digit_cases, elim disjE) simp_all
  ultimately have "lower_char c \<noteq> CHR ''i'' \<and> lower_char c \<noteq> CHR ''n''"
    by simp
  with Cons show ?thesis by (simp add: lower_def)
qed

lemma decimal_of_whole:
  "decimal_of_str (str_nat m @ ''.000000'') = Some (rat_of_nat m)"
proof -
  have all: "\<forall>c\<in>set (str_nat m). is_digit c"
    using str_nat_digits [of m] by (simp add: list_all_iff)
  have dot: "\<not> is_digit CHR ''.''" and zero: "is_digit CHR ''0''"
    by (simp_all add: is_digit_def)
  have t: "takeWhile is_digit (str_nat m @ ''.000000'') = str_nat m"
    using all dot by (simp add: takeWhile_append2)
  have d: "dropWhile is_digit (str_nat m @ ''.000000'') = ''.000000''"
    using all dot by (simp add: dropWhile_append2)
  have v: "digits_val (str_nat m @ ''000000'') = m * 1000000"
    by (simp add: digits_val_append digits_val_str_nat) (simp add: digits_val_def digit_val_def)
  have ne: "str_nat m \<noteq> []"
    using str_nat_digits [of m] by simp
  show ?thesis
    using ne by (simp add: decimal_of_str_def t d zero v Let_def)
qed

lemma float_of_whole: "float_of_str (str_int k @ ''.000000'') = Some (Finite (rat_of_int k))"
proof (cases "k < 0")
  case True
  let ?b = "str_nat (nat (- k)) @ ''.000000''"
  have ends: "str_nat (nat (- k)) \<noteq> []" "is_digit (hd (str_nat (nat (- k))))"
    using str_nat_digits [of "nat (- k)"] str_nat_ends [of "nat (- k)"] by simp_all
  have "strip (CHR ''-'' # ?b) = CHR ''-'' # ?b"
    by (intro strip_plain) (simp_all add: is_space_def)
  moreover have "lower ?b \<noteq> ''inf'' \<and> lower ?b \<noteq> ''infinity'' \<and> lower ?b \<noteq> ''nan''"
    using ends by (intro not_a_word) simp_all
  ultimately show ?thesis
    using True by (simp add: float_of_str_def str_int_def decimal_of_whole)
next
  case False
  let ?b = "str_nat (nat k) @ ''.000000''"
  have ends: "str_nat (nat k) \<noteq> []" "is_digit (hd (str_nat (nat k)))"
    using str_nat_digits [of "nat k"] str_nat_ends [of "nat k"] by simp_all
  have "strip ?b = ?b"
    using ends by (intro strip_plain) (auto simp: is_space_def dest: is_digit_plain)
  moreover have "split_sign ?b = (False, ?b)"
    using ends by (cases "str_nat (nat k)") (auto dest: is_digit_plain)
  moreover have "lower ?b \<noteq> ''inf'' \<and> lower ?b \<noteq> ''infinity'' \<and> lower ?b \<noteq> ''nan''"
    using ends by (intro not_a_word) simp_all
  ultimately show ?thesis
    using False by (simp add: float_of_str_def str_int_def decimal_of_whole)
qed

lemma trunc0_of_int: "trunc0 (rat_of_int k) = k"
proof -
  have "- rat_of_int k = rat_of_int (- k)" by simp
  then have "\<lfloor>- rat_of_int k\<rfloor> = - k" by (simp only: floor_of_int)
  then show ?thesis by (simp add: trunc0_def)
qed

lemma DateField_read_whole:
  assumes "epoch_in_range k"
  shows "DateField_typecast_for_read (PStr (str_int k @ ''.000000'')) = Inr (PDate (k div 86400))"
proof -
  have "date_fromtimestamp (Finite (rat_of_int k)) = Inr (k div 86400)"
    using assms by (simp add: date_fromtimestamp_def trunc0_of_int)
  then show ?thesis
    by (simp add: DateField_typecast_for_read_def float_of_whole)
qed

lemma DateField_roundtrip:
  assumes "epoch_in_range (n * 86400)"
  shows "DateField_typecast_for_storage (PDate n) = Inr (Some (str_int (n * 86400) @ ''.000000''))
         \<and> DateField_typecast_for_read (PStr (str_int (n * 86400) @ ''.000000'')) = Inr (PDate n)"
  using DateField_read_whole [OF assms]
  by (simp add: DateField_typecast_for_storage_def mktime_of_def)

section \<open>The typecast pair\<close>

text \<open>
  C1. The claim is that reading back what \<^verbatim>\<open>typecast_for_storage\<close> wrote gives the value
  again, for every scalar field. The date-time field writes the microsecond without
  leading zeros: the value with epoch second 1700000000 and microsecond 5 is stored as
  \<^verbatim>\<open>1700000000.5\<close>, which reads back with microsecond 500000.
\<close>

theorem datetime_roundtrip_loses_microsecond:
  "DateTimeField_typecast_for_storage
     (PDateTime \<lparr>dt_epoch = 1700000000, dt_microsecond = 5\<rparr>) = Inr (Some ''1700000000.5'')
   \<and> DateTimeField_typecast_for_read (PStr ''1700000000.5'')
       = Inr (PDateTime \<lparr>dt_epoch = 1700000000, dt_microsecond = 500000\<rparr>)"
  by (simp add: DateTimeField_typecast_for_storage_def DateTimeField_typecast_for_read_def
      show_defs parse_defs stamp_defs Let_def)

text \<open>
  C2. The claim is that storing \<^verbatim>\<open>None\<close> gives \<^verbatim>\<open>"0"\<close> for the boolean, integer and
  float fields, and no stored value, without failing, for the date-time and date fields.
  The first half holds; the date-time and date fields raise \<^verbatim>\<open>TypeError\<close>, because the
  instance test comes before the test for \<^verbatim>\<open>None\<close>.
\<close>

theorem storage_of_None:
  "BooleanField_typecast_for_storage h PNone = ''0''
   \<and> IntegerField_typecast_for_storage ext h PNone = Inr ''0''
   \<and> FloatField_typecast_for_storage ext h PNone = Inr ''0''
   \<and> DateTimeField_typecast_for_storage PNone = Inl TypeError
   \<and> DateField_typecast_for_storage PNone = Inl TypeError"
  by (simp add: BooleanField_typecast_for_storage_def IntegerField_typecast_for_storage_def
      FloatField_typecast_for_storage_def DateTimeField_typecast_for_storage_def
      DateField_typecast_for_storage_def)

text \<open>
  C3. The claim is that a failing conversion on read gives \<^verbatim>\<open>None\<close> for the date-time and
  date fields. A raw string that is no number makes \<^verbatim>\<open>float\<close> raise \<^verbatim>\<open>ValueError\<close>, which
  the handler does not catch; only a \<^verbatim>\<open>TypeError\<close>, as for the raw value \<^verbatim>\<open>None\<close>, becomes
  \<^verbatim>\<open>None\<close>.
\<close>

theorem read_of_unparsable_raises:
  "DateTimeField_typecast_for_read (PStr ''abc'') = Inl ValueError
   \<and> DateField_typecast_for_read (PStr ''abc'') = Inl ValueError
   \<and> DateTimeField_typecast_for_read PNone = Inr PNone
   \<and> DateField_typecast_for_read PNone = Inr PNone"
  by (simp add: DateTimeField_typecast_for_read_def DateField_typecast_for_read_def
      parse_defs Let_def)

text \<open>
  C10, as claimed: the string field's \<^verbatim>\<open>typecast_for_storage\<close> returns a string for
  every input. It is \<^verbatim>\<open>str(value)\<close> and nothing else, and \<^verbatim>\<open>str\<close> raises
  \<^verbatim>\<open>UnicodeEncodeError\<close> on a \<^verbatim>\<open>unicode\<close> string with a character beyond ASCII, such
  as the one-letter string of code point 233.
\<close>

theorem Attribute_storage_raises_on_unicode:
  "Attribute_typecast_for_storage (str_ext ex_store) [] (PUnicode [233])
   = Inl UnicodeEncodeError"
  by (simp add: Attribute_typecast_for_storage_def encode_ascii_def is_ascii_def)

text \<open>
  C10, amended. The string field stores \<^verbatim>\<open>str(value)\<close>: it returns the rendering for
  \<^verbatim>\<open>None\<close>, booleans, integers and byte strings, returns for a \<^verbatim>\<open>unicode\<close> string
  exactly when all its characters are ASCII, and otherwise raises what \<^verbatim>\<open>str\<close> raises.
  For \<^verbatim>\<open>None\<close> the result is the four letters \<^verbatim>\<open>None\<close>, where the integer and float
  fields store \<^verbatim>\<open>"0"\<close>; no value is omitted.
\<close>

theorem Attribute_storage_is_str:
  "Attribute_typecast_for_storage ext h PNone = Inr ''None''
   \<and> Attribute_typecast_for_storage ext h (PBool b) = Inr (if b then ''True'' else ''False'')
   \<and> Attribute_typecast_for_storage ext h (PInt i) = Inr (str_int i)
   \<and> Attribute_typecast_for_storage ext h (PStr s) = Inr s
   \<and> Attribute_typecast_for_storage ext h (PUnicode u)
       = (if is_ascii u then Inr (map char_of u) else Inl UnicodeEncodeError)
   \<and> Attribute_typecast_for_storage ext h (PFloat x) = ext h (PFloat x)
   \<and> Attribute_typecast_for_storage ext h (PInst cs j) = ext h (PInst cs j)
   \<and> Attribute_typecast_for_storage ext h PNone \<noteq> IntegerField_typecast_for_storage ext h PNone
   \<and> Attribute_typecast_for_storage ext h PNone \<noteq> FloatField_typecast_for_storage ext h PNone"
  by (simp add: Attribute_typecast_for_storage_def IntegerField_typecast_for_storage_def
      FloatField_typecast_for_storage_def encode_ascii_def)

section \<open>Reference fields\<close>

text \<open>
  With a type as target, \<^verbatim>\<open>__set__\<close> raises \<^verbatim>\<open>TypeError\<close> exactly for a value that is
  neither \<^verbatim>\<open>None\<close> nor an instance of the target, and an object of the target class has
  its identifier written to the \<^verbatim>\<open>attname\<close> slot.
\<close>

lemma ReferenceField_set_TypeError_iff:
  "(ReferenceField_set (f\<lparr>ref_target_type := ByType t\<rparr>) inst v = Inl TypeError)
   = (v \<noteq> PNone \<and> \<not> isinstance v t)"
  by (cases v) (auto simp: ReferenceField_set_def isinstance_of_def ReferenceField_value_type_def
      py_id_def split: prod.splits)

lemma ReferenceField_set_instance:
  assumes "ref_target_type f = ByType (TModel c)" and "c \<in> set cs"
  shows "ReferenceField_set f inst (PInst cs i)
         = Inr (snd (ReferenceField_attname f), set_attr inst (fst (ReferenceField_attname f)) i)"
  using assms
  by (simp add: ReferenceField_set_def isinstance_of_def ReferenceField_value_type_def
      py_id_def split: prod.splits)

text \<open>
  C4. The claim is that \<^verbatim>\<open>__set__\<close> raises a type error exactly for a value that is neither
  \<^verbatim>\<open>None\<close> nor an instance of the target type, and succeeds for every accepted value,
  \<^verbatim>\<open>None\<close> included. \<^verbatim>\<open>None\<close> passes the guard, and then \<^verbatim>\<open>value.id\<close> raises
  \<^verbatim>\<open>AttributeError\<close>: nothing is written.
\<close>

theorem ReferenceField_set_None_raises:
  "ReferenceField_set (f\<lparr>ref_target_type := ByType t\<rparr>) inst PNone = Inl AttributeError"
  by (simp add: ReferenceField_set_def isinstance_of_def ReferenceField_value_type_def
      py_id_def split: prod.splits)

text \<open>
  C7. The resolved object is kept on the descriptor. When a first \<^verbatim>\<open>__get__\<close>, through an
  instance whose identifier slot holds \<open>i\<close>, has resolved \<open>i\<close>, the descriptor it leaves
  answers every later \<^verbatim>\<open>__get__\<close>, through any instance, with that same object, whatever
  the other instance's identifier slot holds.
\<close>

theorem ReferenceField_cache_is_shared:
  assumes "resolved f = None" and "ref_target_type f = ByType (TModel c)"
    and "ReferenceField_attname f = (a, f0)" and "attrs instA a = Some i"
  shows "fst (ReferenceField_get st f instA) = get_by_id st c i
         \<and> ReferenceField_get st (snd (ReferenceField_get st f instA)) instB
             = (get_by_id st c i, snd (ReferenceField_get st f instA))"
  using assms
  by (simp add: ReferenceField_get_def ReferenceField_value_type_def)

theorem ReferenceField_cache_is_shared_witness:
  "resolved ex_author = None
   \<and> ref_target_type ex_author = ByType (TModel ''Person'')
   \<and> ReferenceField_attname ex_author
       = (''author_id'', ex_author\<lparr>ref_attname := Some ''author_id''\<rparr>)
   \<and> attrs (ex_book ''1'') ''author_id'' = Some (PStr ''1'')
   \<and> attrs (ex_book ''3'') ''author_id'' = Some (PStr ''3'')
   \<and> get_by_id ex_store ''Person'' (PStr ''3'') = PInst [''Person''] (PStr ''3'')
   \<and> fst (ReferenceField_get ex_store
            (snd (ReferenceField_get ex_store ex_author (ex_book ''1''))) (ex_book ''3''))
       = PInst [''Person''] (PStr ''1'')"
proof -
  have h1: "resolved ex_author = None"
    by (simp add: ex_author_def)
  have h2: "ref_target_type ex_author = ByType (TModel ''Person'')"
    by (simp add: ex_author_def)
  have h3: "ReferenceField_attname ex_author
            = (''author_id'', ex_author\<lparr>ref_attname := Some ''author_id''\<rparr>)"
    by (simp add: ReferenceField_attname_def ex_author_def)
  have h4: "attrs (ex_book ''1'') ''author_id'' = Some (PStr ''1'')"
    by (simp add: ex_book_def)
  have h5: "attrs (ex_book ''3'') ''author_id'' = Some (PStr ''3'')"
    by (simp add: ex_book_def)
  have h6: "get_by_id ex_store ''Person'' (PStr ''3'') = PInst [''Person''] (PStr ''3'')"
    by (simp add: ex_store_def)
  have h7: "get_by_id ex_store ''Person'' (PStr ''1'') = PInst [''Person''] (PStr ''1'')"
    by (simp add: ex_store_def)
  from ReferenceField_cache_is_shared [OF h1 h2 h3 h4, of ex_store "ex_book ''3''"]
  show ?thesis
    using h1 h2 h3 h4 h5 h6 h7 by simp
qed

section \<open>Validation\<close>

lemma falsy_values:
  "\<not> truthy h PNone \<and> \<not> truthy h (PBool False) \<and> \<not> truthy h (PInt 0)
   \<and> \<not> truthy h (PFloat (Finite 0)) \<and> \<not> truthy h (PStr []) \<and> \<not> truthy h (PUnicode [])"
  by simp

text \<open>
  C9. When the current value of a scalar field is false (\<^verbatim>\<open>None\<close>, \<^verbatim>\<open>False\<close>, \<^verbatim>\<open>0\<close>,
  \<^verbatim>\<open>0.0\<close>, the empty string), \<^verbatim>\<open>validate\<close> makes no type check: its outcome is that of the
  required test and the validator alone, whatever the declared value type, and a
  \<^verbatim>\<open>bad type\<close> pair can only be one that the validator callback returned itself. An
  exception that \<^verbatim>\<open>str\<close> raises inside the required test leaves \<^verbatim>\<open>validate\<close> as it is;
  it is the one other way for a pair to come out, should that exception be a validation
  error of its own.
\<close>

theorem falsy_value_is_not_type_checked:
  assumes "Attribute_get st f inst = Inr (val, inst1)" and "\<not> truthy h val"
  shows "Attribute_validate st h f inst
         = (case (if required f then is_blank st h val else Inr False) of
              Inl e \<Rightarrow> Inl e
            | Inr blank \<Rightarrow>
                raise_errors (run_validator f h val
                  (if blank then [(name f, ''required'')] else [])) inst1)
         \<and> (\<forall>errs. Attribute_validate st h f inst = Inl (FieldValidationError errs)
               \<longrightarrow> (name f, ''bad type'') \<in> set errs
               \<longrightarrow> (\<exists>g. validator f = Some g \<and> (name f, ''bad type'') \<in> set (g h val))
                   \<or> (required f \<and> is_blank st h val = Inl (FieldValidationError errs)))"
  using assms
  by (auto simp: Attribute_validate_def raise_errors_def run_validator_def Let_def
      split: option.splits if_splits sum.splits)

theorem falsy_value_is_not_type_checked_witness:
  "Attribute_get ex_store ex_title (ex_titled (PInt 0)) = Inr (PInt 0, ex_titled (PInt 0))
   \<and> \<not> truthy [] (PInt 0)
   \<and> \<not> isinstance (PInt 0) (value_type (cls ex_title))
   \<and> Attribute_validate ex_store [] ex_title (ex_titled (PInt 0)) = Inr (ex_titled (PInt 0))"
proof -
  have h1: "Attribute_get ex_store ex_title (ex_titled (PInt 0))
            = Inr (PInt 0, ex_titled (PInt 0))"
    by (simp add: Attribute_get_def cache_slot_def ex_title_def ex_titled_def)
  have h2: "\<not> truthy [] (PInt 0)"
    by simp
  have h3: "\<not> isinstance (PInt 0) (value_type (cls ex_title))"
    by (simp add: ex_title_def)
  have h4: "is_blank ex_store [] (PInt 0) = Inr False"
    by (simp add: is_blank_def show_defs strip_def is_space_def)
  from falsy_value_is_not_type_checked [OF h1 h2]
  show ?thesis
    using h1 h3 h4 by (simp add: raise_errors_def run_validator_def ex_title_def)
qed

section \<open>List fields\<close>

lemma value_type_keeps:
  "ListField_value_type st f = Inr (t, f1) \<Longrightarrow>
     name f1 = name f \<and> required f1 = required f \<and> validator f1 = validator f
     \<and> default f1 = default f \<and> redisco_model f1 = redisco_model f
     \<and> ListField_value_type st f1 = Inr (t, f1)"
  by (auto simp: ListField_value_type_def split: target.splits option.splits)


lemma construct_extends:
  "construct ext h t v = Inr (x, h1) \<Longrightarrow> \<exists>ys. h1 = h @ ys"
  by (cases t) (auto simp: new_list_def split: sum.splits)

lemma construct_all_extends:
  "construct_all ext h t vs = Inr (xs, h1) \<Longrightarrow> \<exists>ys. h1 = h @ ys"
proof (induction vs arbitrary: h xs)
  case Nil
  then show ?case by simp
next
  case (Cons v vs)
  from Cons.prems obtain x hm xs' where
    c1: "construct ext h t v = Inr (x, hm)" and c2: "construct_all ext hm t vs = Inr (xs', h1)"
    by (auto split: sum.splits)
  from construct_extends [OF c1] obtain ys where "hm = h @ ys" by blast
  moreover from Cons.IH [OF c2] obtain zs where "h1 = hm @ zs" by blast
  ultimately show ?case by simp
qed

lemma converted_extends:
  "converted st h m t vs = Inr (xs, h1) \<Longrightarrow> \<exists>ys. h1 = h @ ys"
  by (auto simp: converted_def split: if_splits sum.splits dest: construct_all_extends)

text \<open>
  C5. For a list field over a model type, \<^verbatim>\<open>__get__\<close> on a persisted instance without a
  cached value returns a list holding, in the order of the backing list, the objects
  that the identifiers resolve to; an identifier that resolves to nothing is left out
  and raises nothing. With the backing list \<open>1, 2, 3\<close> and \<open>2\<close> unresolved the result
  has two elements, the object of \<open>1\<close> before the object of \<open>3\<close>.
\<close>

theorem ListField_get_resolves_in_order:
  assumes "attrs inst (cache_slot (name f)) = None" and "\<not> is_new inst"
    and "redisco_model f" and "ListField_value_type st f = Inr (TModel c, f1)"
  shows "ListField_get st h f inst
         = Inr (PList (Suc (length h)), f1, ListField_set f1 inst (PList (Suc (length h))),
                h @ [map PStr (members st (key inst) (name f)),
                     filter (\<lambda>obj. obj \<noteq> PNone)
                       (map (\<lambda>m. get_by_id st c (PStr m)) (members st (key inst) (name f)))])
         \<and> list_at (h @ [map PStr (members st (key inst) (name f)),
                     filter (\<lambda>obj. obj \<noteq> PNone)
                       (map (\<lambda>m. get_by_id st c (PStr m)) (members st (key inst) (name f)))])
              (Suc (length h))
           = filter (\<lambda>obj. obj \<noteq> PNone)
               (map (\<lambda>m. get_by_id st c (PStr m)) (members st (key inst) (name f)))"
  using assms value_type_keeps [OF assms(4)]
  by (simp add: ListField_get_def convert_members_def converted_def resolve_all_def
      new_list_def list_at_def nth_append comp_def)


theorem ListField_get_resolves_in_order_witness:
  "attrs ex_person (cache_slot (name ex_friends)) = None
   \<and> \<not> is_new ex_person
   \<and> redisco_model ex_friends
   \<and> ListField_value_type ex_store ex_friends
       = Inr (TModel ''Person'', ex_friends\<lparr>target_type := ByType (TModel ''Person'')\<rparr>)
   \<and> members ex_store (key ex_person) (name ex_friends) = [''1'', ''2'', ''3'']
   \<and> get_by_id ex_store ''Person'' (PStr ''2'') = PNone
   \<and> (\<exists>v f i h. ListField_get ex_store [] ex_friends ex_person = Inr (v, f, i, h)
         \<and> v = PList 1
         \<and> list_at h 1 = [PInst [''Person''] (PStr ''1''), PInst [''Person''] (PStr ''3'')])"
proof -
  have h1: "attrs ex_person (cache_slot (name ex_friends)) = None"
    by (simp add: ex_person_def)
  have h2: "\<not> is_new ex_person"
    by (simp add: ex_person_def)
  have h3: "redisco_model ex_friends"
    by (simp add: ex_friends_def)
  have h4: "ListField_value_type ex_store ex_friends
            = Inr (TModel ''Person'', ex_friends\<lparr>target_type := ByType (TModel ''Person'')\<rparr>)"
    by (simp add: ListField_value_type_def ex_friends_def ex_store_def)
  have h5: "members ex_store (key ex_person) (name ex_friends) = [''1'', ''2'', ''3'']"
    by (simp add: ex_store_def)
  have h6: "get_by_id ex_store ''Person'' (PStr ''2'') = PNone"
       "get_by_id ex_store ''Person'' (PStr ''1'') = PInst [''Person''] (PStr ''1'')"
       "get_by_id ex_store ''Person'' (PStr ''3'') = PInst [''Person''] (PStr ''3'')"
    by (simp_all add: ex_store_def)
  from ListField_get_resolves_in_order [OF h1 h2 h3 h4, of "[]"]
  show ?thesis
    using h1 h2 h3 h4 h5 h6 by simp
qed

section \<open>The aggregate error\<close>

text \<open>
  The required test of a scalar field calls \<^verbatim>\<open>str\<close> on the value. What \<^verbatim>\<open>str\<close> raises
  is no validation error: it leaves \<^verbatim>\<open>validate\<close> as it is, as a failing read does.
\<close>

lemma Attribute_validate_passes_str_error:
  assumes "Attribute_get st f inst = Inr (val, inst1)" and "required f"
    and "is_blank st h val = Inl e"
  shows "Attribute_validate st h f inst = Inl e"
  using assms by (simp add: Attribute_validate_def)

lemma Attribute_validate_unicode_example:
  "Attribute_validate ex_store [] ex_title (ex_titled (PUnicode [233])) = Inl UnicodeEncodeError"
  by (simp add: Attribute_validate_def Attribute_get_def cache_slot_def ex_title_def
      ex_titled_def ex_store_def is_blank_def encode_ascii_def is_ascii_def)



section \<open>The default of a list field\<close>

text \<open>
  C8, as claimed: \<^verbatim>\<open>__get__\<close> on a new instance returns a copy of the default. The
  default goes through the same conversion as stored members, so the result need not
  have the default's elements: with the target type \<^verbatim>\<open>int\<close> and the default
  \<^verbatim>\<open>["1"]\<close> the list returned is \<^verbatim>\<open>[1]\<close>.
\<close>

theorem ListField_get_new_converts_default:
  "ListField_init [[PStr ''1'']] (ByType TInt) ''numbers'' True False None (PList 0)
     = (ex_numbers, [[PStr ''1'']])
   \<and> ListField_get ex_store [[PStr ''1'']] ex_numbers ex_new
       = Inr (PList 1, ex_numbers, ListField_set ex_numbers ex_new (PList 1),
              [[PStr ''1''], [PInt 1]])
   \<and> list_at [[PStr ''1''], [PInt 1]] 1 \<noteq> list_at [[PStr ''1'']] 0"
  by (simp add: ListField_init_def ListField_get_def convert_members_def converted_def
      ListField_value_type_def ex_numbers_def ex_new_def ex_store_def cache_slot_def
      new_list_def list_at_def int_defs)

text \<open>
  C8, amended. On a new instance without a cached value, when the target type resolves
  and the conversion of the default's elements succeeds, \<^verbatim>\<open>__get__\<close> caches and
  returns a list object made for this call, which holds the converted elements (none
  for the empty default) and is never the default object itself: appending to the list
  returned changes that list and leaves the default, in the descriptor and in the store
  of lists, as it was.
\<close>

theorem ListField_get_new_is_fresh:
  assumes "attrs inst (cache_slot (name f)) = None" and "is_new inst"
    and "default f = PList d" and "d < length h"
    and "ListField_value_type st f = Inr (t, f1)"
    and "converted st h (redisco_model f) t (list_at h d) = Inr (xs, h1)"
  shows "ListField_get st h f inst
         = Inr (PList (length h1), f1, ListField_set f1 inst (PList (length h1)), h1 @ [xs])
         \<and> PList (length h1) \<noteq> default f1
         \<and> attrs (ListField_set f1 inst (PList (length h1))) (cache_slot (name f))
             = Some (PList (length h1))
         \<and> list_at (h1 @ [xs]) (length h1) = xs
         \<and> list_at (list_append (h1 @ [xs]) (length h1) x) (length h1) = xs @ [x]
         \<and> list_at (list_append (h1 @ [xs]) (length h1) x) d = list_at h d
         \<and> (list_at h d = [] \<longrightarrow> xs = [])"
proof -
  note keep = value_type_keeps [OF assms(5)]
  from converted_extends [OF assms(6)] obtain ys where h1: "h1 = h @ ys" by blast
  with assms(4) have dlt: "d < length h1" by simp
  have get: "ListField_get st h f inst
         = Inr (PList (length h1), f1, ListField_set f1 inst (PList (length h1)), h1 @ [xs])"
    using assms keep
    by (simp add: ListField_get_def convert_members_def new_list_def)
  have fresh: "PList (length h1) \<noteq> default f1"
    using keep assms(3) dlt by simp
  have cached: "attrs (ListField_set f1 inst (PList (length h1))) (cache_slot (name f))
             = Some (PList (length h1))"
    using keep by (simp add: ListField_set_def set_attr_def)
  have at: "list_at (h1 @ [xs]) (length h1) = xs"
    by (simp add: list_at_def)
  have app: "list_at (list_append (h1 @ [xs]) (length h1) x) (length h1) = xs @ [x]"
    by (simp add: list_at_def list_append_def)
  have frame: "list_at (list_append (h1 @ [xs]) (length h1) x) d = list_at h d"
    using dlt assms(4) h1 by (simp add: list_at_def list_append_def nth_append)
  have empty: "list_at h d = [] \<longrightarrow> xs = []"
    using assms(6) by (auto simp: converted_def resolve_all_def split: if_splits pytype.splits)
  from get fresh cached at app frame empty show ?thesis by blast
qed

theorem ListField_get_new_is_fresh_witness:
  "attrs ex_new (cache_slot (name ex_numbers)) = None
   \<and> is_new ex_new
   \<and> default ex_numbers = PList 0
   \<and> (0::nat) < length [[PStr ''1'']]
   \<and> ListField_value_type ex_store ex_numbers = Inr (TInt, ex_numbers)
   \<and> converted ex_store [[PStr ''1'']] (redisco_model ex_numbers) TInt
        (list_at [[PStr ''1'']] 0) = Inr ([PInt 1], [[PStr ''1'']])
   \<and> ListField_get ex_store [[PStr ''1'']] ex_numbers ex_new
       = Inr (PList 1, ex_numbers, ListField_set ex_numbers ex_new (PList 1),
              [[PStr ''1''], [PInt 1]])
   \<and> list_at (list_append [[PStr ''1''], [PInt 1]] 1 (PInt 7)) 1 = [PInt 1, PInt 7]
   \<and> list_at (list_append [[PStr ''1''], [PInt 1]] 1 (PInt 7)) 0 = [PStr ''1'']"
proof -
  have h1: "attrs ex_new (cache_slot (name ex_numbers)) = None"
    by (simp add: ex_new_def)
  have h2: "is_new ex_new"
    by (simp add: ex_new_def)
  have h3: "default ex_numbers = PList 0"
    by (simp add: ex_numbers_def)
  have h4: "(0::nat) < length [[PStr ''1'']]"
    by simp
  have h5: "ListField_value_type ex_store ex_numbers = Inr (TInt, ex_numbers)"
    by (simp add: ListField_value_type_def ex_numbers_def)
  have h6: "converted ex_store [[PStr ''1'']] (redisco_model ex_numbers) TInt
        (list_at [[PStr ''1'']] 0) = Inr ([PInt 1], [[PStr ''1'']])"
    by (simp add: converted_def ex_numbers_def list_at_def int_defs)
  from ListField_get_new_is_fresh [OF h1 h2 h3 h4 h5 h6, of "PInt 7"]
  show ?thesis
    using h1 h2 h3 h4 h5 h6 by (simp add: list_at_def)
qed

end
